theory Spec2Isabelle
  imports Complex_Main
begin

section \<open>Request data: JSON values and JavaScript truthiness\<close>

text \<open>
  The body of a POST request is parsed JSON. The handlers destructure the field
  \<^verbatim>\<open>stats\<close> from it: the field is either absent (\<^verbatim>\<open>undefined\<close>, modelled as
  \<open>None\<close>) or some JSON value.
\<close>

datatype json =
    JNull
  | JBool bool
  | JNum rat
  | JStr string
  | JArr "json list"
  | JObj "(string \<times> json) list"

text \<open>
  JavaScript's \<^verbatim>\<open>ToBoolean\<close> on a parsed JSON value: \<^verbatim>\<open>null\<close>, \<^verbatim>\<open>false\<close>,
  \<^verbatim>\<open>0\<close> and the empty string are falsy; every array and every object, also the
  empty ones, is truthy.
\<close>

fun truthy :: "json \<Rightarrow> bool" where
  "truthy JNull = False"
| "truthy (JBool b) = b"
| "truthy (JNum n) = (n \<noteq> 0)"
| "truthy (JStr s) = (s \<noteq> [])"
| "truthy (JArr xs) = True"
| "truthy (JObj kvs) = True"

text \<open>The test \<^verbatim>\<open>!stats\<close> of the POST handlers; \<^verbatim>\<open>undefined\<close> is falsy.\<close>

definition js_not :: "json option \<Rightarrow> bool" where
  "js_not v = (case v of None \<Rightarrow> True | Some j \<Rightarrow> \<not> truthy j)"

section \<open>Rows, tables and the store\<close>

text \<open>
  The rows carry the columns the handlers name. The column \<^verbatim>\<open>id\<close> of each table
  is written \<open>u_id\<close>, \<open>a_id\<close>, \<open>m_id\<close>, \<open>e_id\<close>.
\<close>

record user_row =
  u_id :: string

record alliance =
  a_id :: string
  manager_id :: string

record alliance_member =
  m_id :: string
  alliance_id :: string

record battle_event =
  e_id :: string
  alliance_member_id :: string

record stat_row =
  user_id :: string
  stats :: json
  created_at :: string

datatype stat_kind = Military | Resources | Development

datatype table =
    Users
  | MilitaryStats
  | ResourcesStats
  | DevelopmentStats
  | Alliances
  | AllianceMembers
  | BattleEvents

fun stat_table :: "stat_kind \<Rightarrow> table" where
  "stat_table Military = MilitaryStats"
| "stat_table Resources = ResourcesStats"
| "stat_table Development = DevelopmentStats"

text \<open>The \<^verbatim>\<open>error\<close> object of a store response; the handlers read its \<^verbatim>\<open>message\<close>.\<close>

datatype pg_error = PgError (message: string)

text \<open>One entry per request sent to the store, in the order the requests are sent.\<close>

datatype access = Read table | Write table

text \<open>
  Modelled from the spec: the Entity Store collaborator (the Supabase client and the
  database schema behind it), which src/ only calls. The store holds the named
  collections, may signal a failure for a collection (\<open>fault\<close>, the error it then
  answers with), and \<open>trace\<close> records every request it receives.
\<close>

record store =
  users :: "user_row list"
  stats_rows :: "stat_kind \<Rightarrow> stat_row list"
  alliances :: "alliance list"
  alliance_members :: "alliance_member list"
  battle_events :: "battle_event list"
  fault :: "table \<Rightarrow> pg_error option"
  trace :: "access list"

text \<open>
  Modelled from the spec: \<^verbatim>\<open>getByFilter(collection, predicate)\<close>, the chain
  \<^verbatim>\<open>from(t).select(cols).eq(col, v)\<close>. It answers the selected columns of the
  rows that satisfy the predicate, or the store's error.
\<close>

definition select_eq ::
  "table \<Rightarrow> (store \<Rightarrow> 'r list) \<Rightarrow> ('r \<Rightarrow> 'c) \<Rightarrow> ('r \<Rightarrow> bool) \<Rightarrow> store
     \<Rightarrow> (pg_error + 'c list) \<times> store" where
  "select_eq t rows cols p s =
     ((case fault s t of
         Some e \<Rightarrow> Inl e
       | None \<Rightarrow> Inr (map cols (filter p (rows s)))),
      s\<lparr>trace := trace s @ [Read t]\<rparr>)"

definition no_single_row :: pg_error where
  "no_single_row = PgError ''JSON object requested, multiple (or no) rows returned''"

text \<open>
  Modelled from the spec: \<^verbatim>\<open>getByKey(collection, key) -> Row | NotFound\<close>, the
  modifier \<^verbatim>\<open>.single()\<close>. Exactly one row is the row; no row, or more than one, is
  an error of the store.
\<close>

definition single :: "(pg_error + 'c list) \<times> store \<Rightarrow> (pg_error + 'c) \<times> store" where
  "single q =
     ((case fst q of
         Inl e \<Rightarrow> Inl e
       | Inr xs \<Rightarrow> (case xs of
                     [] \<Rightarrow> Inl no_single_row
                   | [x] \<Rightarrow> Inr x
                   | x # y # zs \<Rightarrow> Inl no_single_row)),
      snd q)"

text \<open>
  Modelled from the spec: the schema contract \<^verbatim>\<open>*_stats(user_id, stats, created_at)\<close>
  with create-or-replace keyed on \<^verbatim>\<open>user_id\<close>, one table per kind. A row with the
  key is replaced in place, otherwise the row is added.
\<close>

definition upsert_row :: "stat_row \<Rightarrow> stat_row list \<Rightarrow> stat_row list" where
  "upsert_row r t =
     (if user_id r \<in> set (map user_id t)
      then map (\<lambda>x. if user_id x = user_id r then r else x) t
      else t @ [r])"

text \<open>
  Modelled from the spec: \<^verbatim>\<open>upsert(collection, key, fields) -> Row | StorageError\<close>,
  the chain \<^verbatim>\<open>from(t).upsert(row).select()\<close>, which answers the stored row in a list.
\<close>

definition upsert :: "stat_kind \<Rightarrow> stat_row \<Rightarrow> store \<Rightarrow> (pg_error + stat_row list) \<times> store" where
  "upsert k r s =
     (case fault s (stat_table k) of
        Some e \<Rightarrow> (Inl e, s\<lparr>trace := trace s @ [Write (stat_table k)]\<rparr>)
      | None \<Rightarrow>
          (Inr [r],
           s\<lparr>stats_rows := (stats_rows s)(k := upsert_row r (stats_rows s k)),
             trace := trace s @ [Write (stat_table k)]\<rparr>))"

section \<open>Responses\<close>

text \<open>
  \<open>Json d\<close> is \<^verbatim>\<open>res.json(d)\<close> (status 200); \<open>Error_json c m\<close> is
  \<^verbatim>\<open>res.status(c).json({ error: m })\<close>.
\<close>

datatype 'a response = Json 'a | Error_json nat string

fun status_code :: "'a response \<Rightarrow> nat" where
  "status_code (Json d) = 200"
| "status_code (Error_json c m) = c"

fun error_text :: "'a response \<Rightarrow> string option" where
  "error_text (Json d) = None"
| "error_text (Error_json c m) = Some m"

definition forbidden_msg :: string where
  "forbidden_msg = ''Forbidden: You are not the manager of this alliance''"

section \<open>The handlers of src/index.ts\<close>

text \<open>
  Every handler runs behind \<^verbatim>\<open>ClerkExpressRequireAuth()\<close>, so \<open>userId\<close> is the
  authenticated principal. A handler takes the store and returns its response with the
  store afterwards.
\<close>

text \<open>\<^verbatim>\<open>GET /api/user\<close>\<close>

definition get_user :: "string \<Rightarrow> store \<Rightarrow> user_row response \<times> store" where
  "get_user userId s =
     (let (res, s1) = single (select_eq Users users (\<lambda>r. r) (\<lambda>r. u_id r = userId) s) in
      case res of
        Inl error \<Rightarrow> (Error_json 500 (message error), s1)
      | Inr data \<Rightarrow> (Json data, s1))"

text \<open>
  \<^verbatim>\<open>GET /api/military-stats\<close>, \<^verbatim>\<open>GET /api/resources-stats\<close> and
  \<^verbatim>\<open>GET /api/development-stats\<close> differ in the table only.
\<close>

definition get_stats :: "stat_kind \<Rightarrow> string \<Rightarrow> store \<Rightarrow> json list response \<times> store" where
  "get_stats k userId s =
     (let (res, s1) =
            select_eq (stat_table k) (\<lambda>st. stats_rows st k) stats (\<lambda>r. user_id r = userId) s in
      case res of
        Inl error \<Rightarrow> (Error_json 500 (message error), s1)
      | Inr data \<Rightarrow> (Json data, s1))"

definition get_military_stats :: "string \<Rightarrow> store \<Rightarrow> json list response \<times> store" where
  "get_military_stats = get_stats Military"

definition get_resources_stats :: "string \<Rightarrow> store \<Rightarrow> json list response \<times> store" where
  "get_resources_stats = get_stats Resources"

definition get_development_stats :: "string \<Rightarrow> store \<Rightarrow> json list response \<times> store" where
  "get_development_stats = get_stats Development"

text \<open>
  \<^verbatim>\<open>POST /api/military-stats\<close>, \<^verbatim>\<open>POST /api/resources-stats\<close> and
  \<^verbatim>\<open>POST /api/development-stats\<close>. \<open>body_stats\<close> is the field \<^verbatim>\<open>stats\<close> of the
  request body, \<open>now\<close> is \<^verbatim>\<open>new Date().toISOString()\<close>.
\<close>

definition post_stats ::
  "stat_kind \<Rightarrow> string \<Rightarrow> json option \<Rightarrow> string \<Rightarrow> store \<Rightarrow> stat_row list response \<times> store" where
  "post_stats k userId body_stats now s =
     (if js_not body_stats then (Error_json 400 ''Stats required'', s)
      else
        (case body_stats of
           None \<Rightarrow> (Error_json 400 ''Stats required'', s)
         | Some v \<Rightarrow>
             (let (res, s1) = upsert k \<lparr>user_id = userId, stats = v, created_at = now\<rparr> s in
              case res of
                Inl error \<Rightarrow> (Error_json 500 (message error), s1)
              | Inr data \<Rightarrow> (Json data, s1))))"

definition post_military_stats ::
  "string \<Rightarrow> json option \<Rightarrow> string \<Rightarrow> store \<Rightarrow> stat_row list response \<times> store" where
  "post_military_stats = post_stats Military"

definition post_resources_stats ::
  "string \<Rightarrow> json option \<Rightarrow> string \<Rightarrow> store \<Rightarrow> stat_row list response \<times> store" where
  "post_resources_stats = post_stats Resources"

definition post_development_stats ::
  "string \<Rightarrow> json option \<Rightarrow> string \<Rightarrow> store \<Rightarrow> stat_row list response \<times> store" where
  "post_development_stats = post_stats Development"

text \<open>\<^verbatim>\<open>GET /api/alliances\<close>: the filter on \<^verbatim>\<open>manager_id\<close> is the whole check.\<close>

definition get_alliances :: "string \<Rightarrow> store \<Rightarrow> alliance list response \<times> store" where
  "get_alliances userId s =
     (let (res, s1) = select_eq Alliances alliances (\<lambda>r. r) (\<lambda>a. manager_id a = userId) s in
      case res of
        Inl error \<Rightarrow> (Error_json 500 (message error), s1)
      | Inr data \<Rightarrow> (Json data, s1))"

text \<open>
  \<^verbatim>\<open>GET /api/alliance-members/:allianceId\<close>. The test
  \<^verbatim>\<open>allianceError || alliance.manager_id !== userId\<close> reads \<^verbatim>\<open>alliance\<close> only
  when there is no error.
\<close>

definition get_alliance_members ::
  "string \<Rightarrow> string \<Rightarrow> store \<Rightarrow> alliance_member list response \<times> store" where
  "get_alliance_members userId allianceId s =
     (let (alliance, s1) =
            single (select_eq Alliances alliances manager_id (\<lambda>a. a_id a = allianceId) s) in
      case alliance of
        Inl allianceError \<Rightarrow> (Error_json 403 forbidden_msg, s1)
      | Inr alliance_manager_id \<Rightarrow>
          if alliance_manager_id \<noteq> userId then (Error_json 403 forbidden_msg, s1)
          else
            (let (res, s2) =
                   select_eq AllianceMembers alliance_members (\<lambda>r. r)
                     (\<lambda>m. alliance_id m = allianceId) s1 in
             case res of
               Inl error \<Rightarrow> (Error_json 500 (message error), s2)
             | Inr data \<Rightarrow> (Json data, s2)))"

text \<open>\<^verbatim>\<open>GET /api/battle-events/:allianceMemberId\<close>\<close>

definition get_battle_events ::
  "string \<Rightarrow> string \<Rightarrow> store \<Rightarrow> battle_event list response \<times> store" where
  "get_battle_events userId allianceMemberId s =
     (let (member, s1) =
            single (select_eq AllianceMembers alliance_members alliance_id
                      (\<lambda>m. m_id m = allianceMemberId) s) in
      case member of
        Inl memberError \<Rightarrow> (Error_json 500 (message memberError), s1)
      | Inr member_alliance_id \<Rightarrow>
          (let (alliance, s2) =
                 single (select_eq Alliances alliances manager_id
                           (\<lambda>a. a_id a = member_alliance_id) s1) in
           case alliance of
             Inl allianceError \<Rightarrow> (Error_json 403 forbidden_msg, s2)
           | Inr alliance_manager_id \<Rightarrow>
               if alliance_manager_id \<noteq> userId then (Error_json 403 forbidden_msg, s2)
               else
                 (let (res, s3) =
                        select_eq BattleEvents battle_events (\<lambda>r. r)
                          (\<lambda>e. alliance_member_id e = allianceMemberId) s2 in
                  case res of
                    Inl error \<Rightarrow> (Error_json 500 (message error), s3)
                  | Inr data \<Rightarrow> (Json data, s3))))"

text \<open>
  The last middleware, reached when a handler throws: the detail goes to
  \<^verbatim>\<open>console.error\<close>, the response is a fixed text.
\<close>

definition error_middleware :: "string \<Rightarrow> unit response" where
  "error_middleware err_stack = Error_json 500 ''Something went wrong!''"

section \<open>The ownership chain, as the handlers resolve it\<close>

text \<open>
  The lookup of lines 262 to 266 and 304 to 308: the \<^verbatim>\<open>manager_id\<close> of the one
  alliance with the given id, or the store's error.
\<close>

definition resolve_alliance :: "store \<Rightarrow> string \<Rightarrow> pg_error + string" where
  "resolve_alliance s allianceId =
     fst (single (select_eq Alliances alliances manager_id (\<lambda>a. a_id a = allianceId) s))"

text \<open>
  The lookup of lines 294 to 298: the \<^verbatim>\<open>alliance_id\<close> of the one member with the
  given id, or the store's error.
\<close>

definition resolve_member :: "store \<Rightarrow> string \<Rightarrow> pg_error + string" where
  "resolve_member s memberId =
     fst (single (select_eq AllianceMembers alliance_members alliance_id
                    (\<lambda>m. m_id m = memberId) s))"

text \<open>The requests a handler sent to the store, oldest first.\<close>

definition new_trace :: "store \<Rightarrow> store \<Rightarrow> access list" where
  "new_trace s s' = drop (length (trace s)) (trace s')"

section \<open>Example stores\<close>

definition empty_store :: store where
  "empty_store =
     \<lparr>users = [], stats_rows = (\<lambda>k. []), alliances = [], alliance_members = [],
      battle_events = [], fault = (\<lambda>t. None), trace = []\<rparr>"

text \<open>
  The scenario of the specification: \<open>U1\<close> manages alliance \<open>A1\<close>, \<open>A1\<close> has
  member \<open>M1\<close>, \<open>M1\<close> has battle event \<open>E1\<close>.
\<close>

definition scenario_store :: store where
  "scenario_store =
     empty_store
       \<lparr>alliances := [\<lparr>a_id = ''A1'', manager_id = ''U1''\<rparr>],
        alliance_members := [\<lparr>m_id = ''M1'', alliance_id = ''A1''\<rparr>],
        battle_events := [\<lparr>e_id = ''E1'', alliance_member_id = ''M1''\<rparr>]\<rparr>"

text \<open>The scenario after alliance \<open>A1\<close> was deleted: \<open>M1\<close> dangles.\<close>

definition dangling_store :: store where
  "dangling_store = scenario_store\<lparr>alliances := []\<rparr>"

text \<open>A store whose military table holds one record, of \<open>U2\<close>.\<close>

definition stats_store :: store where
  "stats_store =
     empty_store
       \<lparr>stats_rows := (\<lambda>k. [])
          (Military := [\<lparr>user_id = ''U2'', stats = JObj [(''attack'', JNum 7)],
                         created_at = ''2024-01-01T00:00:00.000Z''\<rparr>])\<rparr>"

section \<open>Decisions\<close>

datatype decision = Allow | Deny

text \<open>The decision a caller observes: data, or a rejection.\<close>

fun outcome :: "'a response \<Rightarrow> decision" where
  "outcome (Json d) = Allow"
| "outcome (Error_json c m) = Deny"

text \<open>
  The composition the specification compares the battle-events check with, in its
  words: resolve the event's \<^verbatim>\<open>alliance_member_id\<close> to the member's alliance, then
  run the one-hop check, which is the check of the alliance-members endpoint.
\<close>

definition compose_one_hop_checks :: "string \<Rightarrow> battle_event \<Rightarrow> store \<Rightarrow> decision" where
  "compose_one_hop_checks userId ev s =
     (case resolve_member s (alliance_member_id ev) of
        Inl e \<Rightarrow> Deny
      | Inr allianceId \<Rightarrow> outcome (fst (get_alliance_members userId allianceId s)))"

text \<open>
  The specification's "payload is empty/absent", in its words: the field is missing, or
  it is \<^verbatim>\<open>null\<close>, the empty string, the empty array or the empty object.
\<close>

fun empty_or_absent :: "json option \<Rightarrow> bool" where
  "empty_or_absent None = True"
| "empty_or_absent (Some JNull) = True"
| "empty_or_absent (Some (JBool b)) = False"
| "empty_or_absent (Some (JNum n)) = False"
| "empty_or_absent (Some (JStr s)) = (s = [])"
| "empty_or_absent (Some (JArr xs)) = (xs = [])"
| "empty_or_absent (Some (JObj kvs)) = (kvs = [])"

text \<open>The store of \<open>stats_store\<close> with the military table unreachable.\<close>

definition faulty_store :: store where
  "faulty_store =
     stats_store\<lparr>fault := (\<lambda>t. None)
       (MilitaryStats := Some (PgError ''connection to server at 10.0.0.5, port 5432 failed''))\<rparr>"

text \<open>The scenario with the table \<^verbatim>\<open>alliances\<close> refused by the store.\<close>

definition alliances_down_store :: store where
  "alliances_down_store =
     scenario_store\<lparr>fault := (\<lambda>t. None)
       (Alliances := Some (PgError ''permission denied for table alliances''))\<rparr>"

section \<open>The handlers by case\<close>

lemma get_alliance_members_denied:
  "resolve_alliance s A \<noteq> Inr U \<Longrightarrow>
   get_alliance_members U A s =
     (Error_json 403 forbidden_msg, s\<lparr>trace := trace s @ [Read Alliances]\<rparr>)"
  by (auto simp: get_alliance_members_def resolve_alliance_def single_def select_eq_def
      split: sum.splits option.splits list.splits)

lemma get_alliance_members_allowed:
  "resolve_alliance s A = Inr U \<Longrightarrow>
   get_alliance_members U A s =
     ((case fault s AllianceMembers of
         Some e \<Rightarrow> Error_json 500 (message e)
       | None \<Rightarrow> Json (filter (\<lambda>m. alliance_id m = A) (alliance_members s))),
      s\<lparr>trace := trace s @ [Read Alliances, Read AllianceMembers]\<rparr>)"
  by (auto simp: get_alliance_members_def resolve_alliance_def single_def select_eq_def
      split: sum.splits option.splits list.splits)

lemma get_battle_events_no_member:
  "resolve_member s M = Inl e \<Longrightarrow>
   get_battle_events U M s =
     (Error_json 500 (message e), s\<lparr>trace := trace s @ [Read AllianceMembers]\<rparr>)"
  by (auto simp: get_battle_events_def resolve_member_def single_def select_eq_def
      split: sum.splits option.splits list.splits)

lemma get_battle_events_denied:
  "resolve_member s M = Inr A \<Longrightarrow> resolve_alliance s A \<noteq> Inr U \<Longrightarrow>
   get_battle_events U M s =
     (Error_json 403 forbidden_msg,
      s\<lparr>trace := trace s @ [Read AllianceMembers, Read Alliances]\<rparr>)"
  by (auto simp: get_battle_events_def resolve_member_def resolve_alliance_def single_def
        select_eq_def
      split: sum.splits option.splits list.splits)

lemma get_battle_events_allowed:
  "resolve_member s M = Inr A \<Longrightarrow> resolve_alliance s A = Inr U \<Longrightarrow>
   get_battle_events U M s =
     ((case fault s BattleEvents of
         Some e \<Rightarrow> Error_json 500 (message e)
       | None \<Rightarrow> Json (filter (\<lambda>e. alliance_member_id e = M) (battle_events s))),
      s\<lparr>trace := trace s @ [Read AllianceMembers, Read Alliances, Read BattleEvents]\<rparr>)"
  by (auto simp: get_battle_events_def resolve_member_def resolve_alliance_def single_def
        select_eq_def
      split: sum.splits option.splits list.splits)

lemma resolve_alliance_unique:
  "fault s Alliances = None \<Longrightarrow> filter (\<lambda>a. a_id a = A) (alliances s) = [a] \<Longrightarrow>
   resolve_alliance s A = Inr (manager_id a)"
  by (simp add: resolve_alliance_def single_def select_eq_def)

lemma resolve_alliance_missing:
  "filter (\<lambda>a. a_id a = A) (alliances s) = [] \<Longrightarrow> \<exists>e. resolve_alliance s A = Inl e"
  by (simp add: resolve_alliance_def single_def select_eq_def split: option.splits)

lemma resolve_alliance_fault:
  "fault s Alliances = Some e \<Longrightarrow> resolve_alliance s A = Inl e"
  by (simp add: resolve_alliance_def single_def select_eq_def)

lemma resolve_member_unique:
  "fault s AllianceMembers = None \<Longrightarrow>
   filter (\<lambda>m. m_id m = M) (alliance_members s) = [m] \<Longrightarrow>
   resolve_member s M = Inr (alliance_id m)"
  by (simp add: resolve_member_def single_def select_eq_def)

lemma resolve_member_missing:
  "fault s AllianceMembers = None \<Longrightarrow>
   filter (\<lambda>m. m_id m = M) (alliance_members s) = [] \<Longrightarrow>
   resolve_member s M = Inl no_single_row"
  by (simp add: resolve_member_def single_def select_eq_def)

lemma resolve_member_fault:
  "fault s AllianceMembers = Some e \<Longrightarrow> resolve_member s M = Inl e"
  by (simp add: resolve_member_def single_def select_eq_def)

lemma get_stats_result:
  "get_stats k U s =
     ((case fault s (stat_table k) of
         Some e \<Rightarrow> Error_json 500 (message e)
       | None \<Rightarrow> Json (map stats (filter (\<lambda>r. user_id r = U) (stats_rows s k)))),
      s\<lparr>trace := trace s @ [Read (stat_table k)]\<rparr>)"
  by (simp add: get_stats_def select_eq_def split: option.splits)

section \<open>Reading members as the manager, and as anyone else\<close>

text \<open>
  Claim C2. When the store answers, and the requested alliance exists with
  \<^verbatim>\<open>manager_id = P\<close>, the request of \<open>P\<close> is answered with the rows of
  \<^verbatim>\<open>alliance_members\<close> that belong to the alliance, and the same request of any other
  principal is answered 403 Forbidden, with no row.
\<close>

theorem manager_reads_members_others_forbidden:
  assumes "filter (\<lambda>a. a_id a = A) (alliances s) = [a]"
    and "manager_id a = P"
    and "fault s Alliances = None"
    and "fault s AllianceMembers = None"
  shows "fst (get_alliance_members P A s) =
           Json (filter (\<lambda>m. alliance_id m = A) (alliance_members s))
         \<and> (\<forall>Q. Q \<noteq> P \<longrightarrow>
               fst (get_alliance_members Q A s) = Error_json 403 forbidden_msg)"
proof -
  have r: "resolve_alliance s A = Inr P"
    using assms(1,2,3) by (simp add: resolve_alliance_unique)
  then have "fst (get_alliance_members P A s) =
           Json (filter (\<lambda>m. alliance_id m = A) (alliance_members s))"
    using assms(4) by (simp add: get_alliance_members_allowed)
  moreover have "fst (get_alliance_members Q A s) = Error_json 403 forbidden_msg"
    if "Q \<noteq> P" for Q
    using r that by (simp add: get_alliance_members_denied)
  ultimately show ?thesis by blast
qed

theorem manager_reads_members_others_forbidden_witness:
  "fst (get_alliance_members ''U1'' ''A1'' scenario_store) =
     Json [\<lparr>m_id = ''M1'', alliance_id = ''A1''\<rparr>]
   \<and> fst (get_alliance_members ''U2'' ''A1'' scenario_store) = Error_json 403 forbidden_msg"
  using manager_reads_members_others_forbidden
    [of "''A1''" scenario_store "\<lparr>a_id = ''A1'', manager_id = ''U1''\<rparr>" "''U1''"]
  by (simp add: scenario_store_def empty_store_def)

section \<open>What a caller who is not the manager can tell\<close>

text \<open>
  Claim C9. A caller who is not the manager of the requested alliance gets the same
  response from the alliance-members endpoint, status 403 with the one fixed body,
  whether no alliance has the requested id or the alliance exists under another manager.
\<close>

theorem nonmanager_response_independent_of_existence:
  assumes "filter (\<lambda>a. a_id a = A) (alliances s1) = []"
    and "filter (\<lambda>a. a_id a = A) (alliances s2) = [a]"
    and "manager_id a \<noteq> U"
  shows "fst (get_alliance_members U A s1) = fst (get_alliance_members U A s2)
         \<and> fst (get_alliance_members U A s2) = Error_json 403 forbidden_msg"
proof -
  from assms(1) obtain e where "resolve_alliance s1 A = Inl e"
    using resolve_alliance_missing by blast
  then have r1: "fst (get_alliance_members U A s1) = Error_json 403 forbidden_msg"
    by (simp add: get_alliance_members_denied)
  have "resolve_alliance s2 A \<noteq> Inr U"
  proof (cases "fault s2 Alliances")
    case None
    then show ?thesis using assms(2,3) by (simp add: resolve_alliance_unique)
  next
    case (Some e)
    then show ?thesis by (simp add: resolve_alliance_fault)
  qed
  then have "fst (get_alliance_members U A s2) = Error_json 403 forbidden_msg"
    by (simp add: get_alliance_members_denied)
  with r1 show ?thesis by simp
qed

theorem nonmanager_response_independent_of_existence_witness:
  "fst (get_alliance_members ''U2'' ''A1'' dangling_store) =
     fst (get_alliance_members ''U2'' ''A1'' scenario_store)
   \<and> fst (get_alliance_members ''U2'' ''A1'' scenario_store) = Error_json 403 forbidden_msg"
  using nonmanager_response_independent_of_existence
    [of "''A1''" dangling_store scenario_store "\<lparr>a_id = ''A1'', manager_id = ''U1''\<rparr>" "''U2''"]
  by (simp add: dangling_store_def scenario_store_def empty_store_def)

section \<open>Reading statistics that were never written\<close>

text \<open>
  Claim C10. When the store answers and holds no record of the principal in the table of
  a kind, the GET endpoint of that kind (military, resources, development) succeeds with
  status 200 and the empty list.
\<close>

theorem get_stats_no_record_empty:
  assumes "fault s (stat_table k) = None"
    and "\<forall>r \<in> set (stats_rows s k). user_id r \<noteq> P"
  shows "fst (get_stats k P s) = Json [] \<and> status_code (fst (get_stats k P s)) = 200"
proof -
  have "filter (\<lambda>r. user_id r = P) (stats_rows s k) = []"
    using assms(2) by (simp add: filter_empty_conv)
  then show ?thesis
    using assms(1) by (simp add: get_stats_result)
qed

theorem get_stats_no_record_empty_witness:
  "fst (get_stats Military ''U1'' stats_store) = Json []
   \<and> fst (get_stats Development ''U2'' stats_store) = Json []"
  using get_stats_no_record_empty [of stats_store Military "''U1''"]
    get_stats_no_record_empty [of stats_store Development "''U2''"]
  by (simp add: stats_store_def empty_store_def)

section \<open>The two-hop check against the composed one-hop checks\<close>

lemma resolve_member_Inr_no_fault:
  "resolve_member s M = Inr A \<Longrightarrow> fault s AllianceMembers = None"
  by (cases "fault s AllianceMembers") (simp_all add: resolve_member_fault)

text \<open>
  Claim C3. For a battle event, the outcome (data or rejection) of the battle-events
  endpoint at the event's \<^verbatim>\<open>alliance_member_id\<close> is the outcome of the composition:
  the member resolved to its alliance, then the alliance-members check at that alliance.
  When the chain resolves to manager \<open>P\<close>, both allow exactly \<open>P\<close>. The outcome is
  read off the response, so the fetch of the events themselves is taken to succeed.
\<close>

theorem two_hop_check_is_composition:
  assumes "fault s BattleEvents = None"
  shows "outcome (fst (get_battle_events U (alliance_member_id ev) s)) =
           compose_one_hop_checks U ev s
         \<and> (\<forall>A P. resolve_member s (alliance_member_id ev) = Inr A \<and> resolve_alliance s A = Inr P
               \<longrightarrow> compose_one_hop_checks U ev s = (if U = P then Allow else Deny))"
proof -
  let ?M = "alliance_member_id ev"
  have eq: "outcome (fst (get_battle_events U ?M s)) = compose_one_hop_checks U ev s"
  proof (cases "resolve_member s ?M")
    case (Inl e)
    then show ?thesis
      by (simp add: compose_one_hop_checks_def get_battle_events_no_member)
  next
    case (Inr A)
    then have nf: "fault s AllianceMembers = None"
      by (rule resolve_member_Inr_no_fault)
    show ?thesis
    proof (cases "resolve_alliance s A = Inr U")
      case True
      with Inr nf assms show ?thesis
        by (simp add: compose_one_hop_checks_def get_battle_events_allowed
            get_alliance_members_allowed)
    next
      case False
      with Inr show ?thesis
        by (simp add: compose_one_hop_checks_def get_battle_events_denied
            get_alliance_members_denied)
    qed
  qed
  have "compose_one_hop_checks U ev s = (if U = P then Allow else Deny)"
    if "resolve_member s ?M = Inr A" and "resolve_alliance s A = Inr P" for A P
  proof (cases "U = P")
    case True
    with that resolve_member_Inr_no_fault [OF that(1)] show ?thesis
      by (simp add: compose_one_hop_checks_def get_alliance_members_allowed)
  next
    case False
    with that show ?thesis
      by (simp add: compose_one_hop_checks_def get_alliance_members_denied)
  qed
  with eq show ?thesis by blast
qed

theorem two_hop_check_is_composition_witness:
  "outcome (fst (get_battle_events ''U1'' ''M1'' scenario_store)) = Allow
   \<and> compose_one_hop_checks ''U1'' \<lparr>e_id = ''E1'', alliance_member_id = ''M1''\<rparr> scenario_store = Allow
   \<and> outcome (fst (get_battle_events ''U2'' ''M1'' scenario_store)) = Deny"
  using two_hop_check_is_composition
    [of scenario_store "''U1''" "\<lparr>e_id = ''E1'', alliance_member_id = ''M1''\<rparr>"]
    two_hop_check_is_composition
    [of scenario_store "''U2''" "\<lparr>e_id = ''E1'', alliance_member_id = ''M1''\<rparr>"]
  by (simp add: scenario_store_def empty_store_def resolve_member_def resolve_alliance_def
      single_def select_eq_def compose_one_hop_checks_def get_alliance_members_def forbidden_msg_def)

section \<open>The order of the check and the fetch\<close>

text \<open>
  Claim C8. Both indirect-ownership endpoints send the reads of their check first, and
  the read of the target collection (\<^verbatim>\<open>alliance_members\<close> for the alliance-members
  endpoint, \<^verbatim>\<open>battle_events\<close> for the battle-events endpoint) last and only when the
  check passed; a request that is rejected by the check, with 403 or at the failed member
  lookup, never reads the target collection.
\<close>

theorem check_precedes_fetch:
  "new_trace s (snd (get_alliance_members U A s)) =
     (if resolve_alliance s A = Inr U then [Read Alliances, Read AllianceMembers]
      else [Read Alliances])
   \<and> (status_code (fst (get_alliance_members U A s)) = 403 \<longrightarrow>
        Read AllianceMembers \<notin> set (new_trace s (snd (get_alliance_members U A s))))
   \<and> new_trace s (snd (get_battle_events U M s)) =
       (case resolve_member s M of
          Inl e \<Rightarrow> [Read AllianceMembers]
        | Inr B \<Rightarrow>
            if resolve_alliance s B = Inr U
            then [Read AllianceMembers, Read Alliances, Read BattleEvents]
            else [Read AllianceMembers, Read Alliances])
   \<and> (status_code (fst (get_battle_events U M s)) = 403 \<or> resolve_member s M = Inl e \<longrightarrow>
        Read BattleEvents \<notin> set (new_trace s (snd (get_battle_events U M s))))"
proof -
  have a: "new_trace s (snd (get_alliance_members U A s)) =
     (if resolve_alliance s A = Inr U then [Read Alliances, Read AllianceMembers]
      else [Read Alliances])"
    by (simp add: new_trace_def get_alliance_members_allowed get_alliance_members_denied)
  have b: "Read AllianceMembers \<notin> set (new_trace s (snd (get_alliance_members U A s)))"
    if "status_code (fst (get_alliance_members U A s)) = 403"
  proof (cases "resolve_alliance s A = Inr U")
    case True
    with that show ?thesis
      by (simp add: get_alliance_members_allowed split: option.splits)
  next
    case False
    then show ?thesis using a by simp
  qed
  have c: "new_trace s (snd (get_battle_events U M s)) =
       (case resolve_member s M of
          Inl e \<Rightarrow> [Read AllianceMembers]
        | Inr B \<Rightarrow>
            if resolve_alliance s B = Inr U
            then [Read AllianceMembers, Read Alliances, Read BattleEvents]
            else [Read AllianceMembers, Read Alliances])"
    by (simp add: new_trace_def get_battle_events_no_member get_battle_events_allowed
        get_battle_events_denied split: sum.splits)
  have d: "Read BattleEvents \<notin> set (new_trace s (snd (get_battle_events U M s)))"
    if "status_code (fst (get_battle_events U M s)) = 403 \<or> resolve_member s M = Inl e"
  proof (cases "resolve_member s M")
    case (Inl x)
    then show ?thesis using c by simp
  next
    case (Inr B)
    show ?thesis
    proof (cases "resolve_alliance s B = Inr U")
      case True
      with Inr that show ?thesis
        by (simp add: get_battle_events_allowed split: option.splits)
    next
      case False
      with Inr show ?thesis using c by simp
    qed
  qed
  from a b c d show ?thesis by blast
qed

theorem check_precedes_fetch_witness:
  "new_trace scenario_store (snd (get_alliance_members ''U2'' ''A1'' scenario_store)) = [Read Alliances]
   \<and> new_trace scenario_store (snd (get_battle_events ''U2'' ''M1'' scenario_store)) =
       [Read AllianceMembers, Read Alliances]
   \<and> new_trace scenario_store (snd (get_battle_events ''U1'' ''M1'' scenario_store)) =
       [Read AllianceMembers, Read Alliances, Read BattleEvents]"
  using check_precedes_fetch [of scenario_store "''U2''" "''A1''" "''M1''"]
    check_precedes_fetch [of scenario_store "''U1''" "''A1''" "''M1''"]
  by (simp add: scenario_store_def empty_store_def resolve_member_def resolve_alliance_def
      single_def select_eq_def)

section \<open>Upserts of statistics\<close>

lemma upsert_row_filter_same:
  "distinct (map user_id t) \<Longrightarrow> filter (\<lambda>x. user_id x = user_id r) (upsert_row r t) = [r]"
proof (induction t)
  case Nil
  then show ?case by (simp add: upsert_row_def)
next
  case (Cons a t)
  show ?case
  proof (cases "user_id a = user_id r")
    case True
    with Cons.prems have "\<forall>x \<in> set t. user_id x \<noteq> user_id r"
      by (auto simp: image_iff)
    with True show ?thesis
      by (simp add: upsert_row_def filter_empty_conv)
  next
    case False
    with Cons show ?thesis
      by (auto simp: upsert_row_def)
  qed
qed

lemma replace_filter_other:
  "q \<noteq> user_id r \<Longrightarrow>
   filter (\<lambda>x. user_id x = q) (map (\<lambda>x. if user_id x = user_id r then r else x) t) =
   filter (\<lambda>x. user_id x = q) t"
  by (induction t) auto

lemma replace_keys:
  "map user_id (map (\<lambda>x. if user_id x = user_id r then r else x) t) = map user_id t"
  by (induction t) auto

lemma upsert_row_filter_other:
  "q \<noteq> user_id r \<Longrightarrow>
   filter (\<lambda>x. user_id x = q) (upsert_row r t) = filter (\<lambda>x. user_id x = q) t"
  by (simp add: upsert_row_def replace_filter_other)

lemma upsert_row_keys:
  "user_id r \<in> set (map user_id t) \<Longrightarrow> map user_id (upsert_row r t) = map user_id t"
  by (simp only: upsert_row_def if_True replace_keys)

lemma upsert_row_distinct:
  "distinct (map user_id t) \<Longrightarrow> distinct (map user_id (upsert_row r t))"
proof (cases "user_id r \<in> set (map user_id t)")
  case True
  assume "distinct (map user_id t)"
  with True show ?thesis by (simp only: upsert_row_keys)
next
  case False
  assume "distinct (map user_id t)"
  with False show ?thesis by (simp add: upsert_row_def)
qed

lemma post_stats_truthy:
  "truthy v \<Longrightarrow>
   post_stats k U (Some v) now s =
     (case fault s (stat_table k) of
        Some e \<Rightarrow> (Error_json 500 (message e), s\<lparr>trace := trace s @ [Write (stat_table k)]\<rparr>)
      | None \<Rightarrow>
          (Json [\<lparr>user_id = U, stats = v, created_at = now\<rparr>],
           s\<lparr>stats_rows := (stats_rows s)
                (k := upsert_row \<lparr>user_id = U, stats = v, created_at = now\<rparr> (stats_rows s k)),
             trace := trace s @ [Write (stat_table k)]\<rparr>))"
  by (simp add: post_stats_def js_not_def upsert_def split: option.splits)

lemma post_stats_falsy:
  "js_not b \<Longrightarrow> post_stats k U b now s = (Error_json 400 ''Stats required'', s)"
  by (simp add: post_stats_def)

lemma post_stats_success:
  assumes "post_stats k U b now s = (Json d, s')"
  shows "\<exists>v. b = Some v \<and> truthy v
           \<and> stats_rows s' = (stats_rows s)
                (k := upsert_row \<lparr>user_id = U, stats = v, created_at = now\<rparr> (stats_rows s k))"
proof (cases "js_not b")
  case True
  with assms show ?thesis by (simp add: post_stats_falsy)
next
  case False
  then obtain v where v: "b = Some v" "truthy v"
    by (auto simp: js_not_def split: option.splits)
  with assms show ?thesis
    by (auto simp: post_stats_truthy split: option.splits)
qed

text \<open>
  Claim C4. From a table whose \<^verbatim>\<open>user_id\<close> keys are unique, after two successive
  successful upserts of principal \<open>P\<close> for one kind, the table of that kind holds exactly
  one record of \<open>P\<close>, and its \<^verbatim>\<open>stats\<close> are the payload of the second upsert.
\<close>

theorem upsert_twice_last_wins:
  assumes "distinct (map user_id (stats_rows s k))"
    and "post_stats k P b1 t1 s = (Json d1, s1)"
    and "post_stats k P (Some v2) t2 s1 = (Json d2, s2)"
  shows "filter (\<lambda>r. user_id r = P) (stats_rows s2 k) =
           [\<lparr>user_id = P, stats = v2, created_at = t2\<rparr>]
         \<and> length (filter (\<lambda>r. user_id r = P) (stats_rows s2 k)) = 1
         \<and> map stats (filter (\<lambda>r. user_id r = P) (stats_rows s2 k)) = [v2]"
proof -
  from post_stats_success [OF assms(2)] obtain v1 where
    s1: "stats_rows s1 k = upsert_row \<lparr>user_id = P, stats = v1, created_at = t1\<rparr> (stats_rows s k)"
    by auto
  from post_stats_success [OF assms(3)] have
    s2: "stats_rows s2 k = upsert_row \<lparr>user_id = P, stats = v2, created_at = t2\<rparr> (stats_rows s1 k)"
    by auto
  have "distinct (map user_id (stats_rows s1 k))"
    using assms(1) by (simp only: s1 upsert_row_distinct)
  from upsert_row_filter_same [OF this, of "\<lparr>user_id = P, stats = v2, created_at = t2\<rparr>"]
  have "filter (\<lambda>r. user_id r = P) (stats_rows s2 k) =
           [\<lparr>user_id = P, stats = v2, created_at = t2\<rparr>]"
    by (simp add: s2)
  then show ?thesis by simp
qed

theorem upsert_twice_last_wins_witness:
  "map stats (filter (\<lambda>r. user_id r = ''U1'')
     (stats_rows
        (snd (post_stats Military ''U1'' (Some (JObj [(''attack'', JNum 12)])) ''t2''
           (snd (post_stats Military ''U1'' (Some (JObj [(''attack'', JNum 10)])) ''t1''
              stats_store))))
        Military)) = [JObj [(''attack'', JNum 12)]]"
proof -
  let ?r1 = "post_stats Military ''U1'' (Some (JObj [(''attack'', JNum 10)])) ''t1'' stats_store"
  let ?r2 = "post_stats Military ''U1'' (Some (JObj [(''attack'', JNum 12)])) ''t2'' (snd ?r1)"
  have d: "distinct (map user_id (stats_rows stats_store Military))"
    by (simp add: stats_store_def empty_store_def)
  have f: "fault stats_store (stat_table Military) = None"
    by (simp add: stats_store_def empty_store_def)
  have p1: "?r1 = (Json [\<lparr>user_id = ''U1'', stats = JObj [(''attack'', JNum 10)], created_at = ''t1''\<rparr>], snd ?r1)"
    using f by (simp add: post_stats_truthy)
  have f1: "fault (snd ?r1) (stat_table Military) = None"
    using f by (simp add: post_stats_truthy)
  have p2: "?r2 = (Json [\<lparr>user_id = ''U1'', stats = JObj [(''attack'', JNum 12)], created_at = ''t2''\<rparr>], snd ?r2)"
    using f1 by (simp add: post_stats_truthy)
  from upsert_twice_last_wins [OF d p1 p2] show ?thesis by simp
qed

section \<open>Isolation of the statistics of two principals\<close>

lemma post_stats_fault [simp]: "fault (snd (post_stats k U b now s)) = fault s"
  by (simp add: post_stats_def upsert_def split: option.splits)

lemma post_stats_rows_other_user:
  "Q \<noteq> P \<Longrightarrow>
   filter (\<lambda>r. user_id r = Q) (stats_rows (snd (post_stats k' P b now s)) k) =
   filter (\<lambda>r. user_id r = Q) (stats_rows s k)"
  by (simp add: post_stats_def upsert_def upsert_row_filter_other split: option.splits)

text \<open>
  Claim C5. For principals \<open>P \<noteq> Q\<close>: what \<open>Q\<close> reads for a kind is the same before
  and after an upsert of \<open>P\<close>, and it is the empty list when \<open>Q\<close> has no record of the
  kind; and whatever body and kind \<open>Q\<close> posts, the records of \<open>P\<close> stay as they were,
  since the written key is the authenticated principal.
\<close>

theorem stats_isolated_between_principals:
  assumes "P \<noteq> Q"
  shows "fst (get_stats k Q (snd (post_stats k P b now s))) = fst (get_stats k Q s)
         \<and> ((\<forall>r \<in> set (stats_rows s k). user_id r \<noteq> Q) \<and> fault s (stat_table k) = None \<longrightarrow>
              fst (get_stats k Q (snd (post_stats k P b now s))) = Json [])
         \<and> filter (\<lambda>r. user_id r = P) (stats_rows (snd (post_stats k' Q b' now' s)) k) =
             filter (\<lambda>r. user_id r = P) (stats_rows s k)"
proof -
  have q: "filter (\<lambda>r. user_id r = Q) (stats_rows (snd (post_stats k P b now s)) k) =
           filter (\<lambda>r. user_id r = Q) (stats_rows s k)"
    using assms by (simp add: post_stats_rows_other_user)
  have a: "fst (get_stats k Q (snd (post_stats k P b now s))) = fst (get_stats k Q s)"
    by (simp add: get_stats_result q split: option.splits)
  have b: "fst (get_stats k Q (snd (post_stats k P b now s))) = Json []"
    if "\<forall>r \<in> set (stats_rows s k). user_id r \<noteq> Q" and "fault s (stat_table k) = None"
  proof -
    have "filter (\<lambda>r. user_id r = Q) (stats_rows s k) = []"
      using that(1) by (simp add: filter_empty_conv)
    with that(2) have "fst (get_stats k Q s) = Json []"
      by (simp add: get_stats_result)
    with a show ?thesis by simp
  qed
  have c: "filter (\<lambda>r. user_id r = P) (stats_rows (snd (post_stats k' Q b' now' s)) k) =
             filter (\<lambda>r. user_id r = P) (stats_rows s k)"
    using assms by (simp add: post_stats_rows_other_user)
  from a b c show ?thesis by blast
qed

theorem stats_isolated_between_principals_witness:
  "fst (get_stats Military ''U1''
          (snd (post_stats Military ''U2'' (Some (JObj [(''attack'', JNum 9)])) ''t'' stats_store))) =
     Json []
   \<and> filter (\<lambda>r. user_id r = ''U2'')
       (stats_rows (snd (post_stats Military ''U1'' (Some (JStr ''x'')) ''t'' stats_store)) Military) =
       [\<lparr>user_id = ''U2'', stats = JObj [(''attack'', JNum 7)],
         created_at = ''2024-01-01T00:00:00.000Z''\<rparr>]"
  using stats_isolated_between_principals
    [of "''U2''" "''U1''" Military "Some (JObj [(''attack'', JNum 9)])" "''t''" stats_store]
    stats_isolated_between_principals
    [of "''U2''" "''U1''" Military _ _ stats_store Military "Some (JStr ''x'')" "''t''"]
  by (simp add: stats_store_def empty_store_def)

section \<open>Which payloads the upsert rejects\<close>

text \<open>
  The empty object is an empty payload, and the handler writes it; the number zero is
  not an empty payload, and the handler rejects it with 400.
\<close>

theorem empty_object_payload_is_written:
  "empty_or_absent (Some (JObj []))
   \<and> fst (post_stats Military ''U1'' (Some (JObj [])) ''t'' empty_store) =
       Json [\<lparr>user_id = ''U1'', stats = JObj [], created_at = ''t''\<rparr>]
   \<and> new_trace empty_store (snd (post_stats Military ''U1'' (Some (JObj [])) ''t'' empty_store)) =
       [Write MilitaryStats]
   \<and> \<not> empty_or_absent (Some (JNum 0))
   \<and> fst (post_stats Military ''U1'' (Some (JNum 0)) ''t'' empty_store) =
       Error_json 400 ''Stats required''"
  by (simp add: post_stats_def js_not_def upsert_def upsert_row_def new_trace_def empty_store_def)

lemma js_not_values:
  "js_not b = (b \<in> {None, Some JNull, Some (JBool False), Some (JNum 0), Some (JStr [])})"
proof (cases b)
  case None
  then show ?thesis by (simp add: js_not_def)
next
  case (Some j)
  then show ?thesis by (cases j) (auto simp: js_not_def)
qed

text \<open>
  Claim C6, amended. A stat upsert fails with 400 exactly when the field \<^verbatim>\<open>stats\<close>
  is absent or falsy in JavaScript (\<^verbatim>\<open>null\<close>, \<^verbatim>\<open>false\<close>, \<^verbatim>\<open>0\<close>, the empty
  string), and then the store is left as it was, with no request sent to it; for every
  other value, the empty object and the empty array included, it does not fail with 400
  and sends the one write.
\<close>

theorem post_stats_rejects_exactly_falsy:
  "(status_code (fst (post_stats k U b now s)) = 400) =
     (b \<in> {None, Some JNull, Some (JBool False), Some (JNum 0), Some (JStr [])})
   \<and> (status_code (fst (post_stats k U b now s)) = 400 \<longrightarrow>
        post_stats k U b now s = (Error_json 400 ''Stats required'', s))
   \<and> (status_code (fst (post_stats k U b now s)) \<noteq> 400 \<longrightarrow>
        new_trace s (snd (post_stats k U b now s)) = [Write (stat_table k)])"
proof (cases "js_not b")
  case True
  then show ?thesis
    using js_not_values [of b] by (simp add: post_stats_falsy)
next
  case False
  then obtain v where v: "b = Some v" "truthy v"
    by (auto simp: js_not_def split: option.splits)
  have "status_code (fst (post_stats k U b now s)) \<noteq> 400"
    using v by (simp add: post_stats_truthy split: option.splits)
  moreover have "new_trace s (snd (post_stats k U b now s)) = [Write (stat_table k)]"
    using v by (simp add: post_stats_truthy new_trace_def split: option.splits)
  ultimately show ?thesis
    using False js_not_values [of b] by simp
qed

theorem post_stats_rejects_exactly_falsy_witness:
  "post_stats Resources ''U1'' (Some (JStr [])) ''t'' stats_store =
     (Error_json 400 ''Stats required'', stats_store)
   \<and> new_trace stats_store (snd (post_stats Resources ''U1'' (Some (JArr [])) ''t'' stats_store)) =
       [Write ResourcesStats]"
  using post_stats_rejects_exactly_falsy [of Resources "''U1''" "Some (JStr [])" "''t''" stats_store]
    post_stats_rejects_exactly_falsy [of Resources "''U1''" "Some (JArr [])" "''t''" stats_store]
  by simp

section \<open>What error responses carry\<close>

lemma get_alliance_members_status:
  "status_code (fst (get_alliance_members U A s)) \<in> {200, 403, 500}"
  by (cases "resolve_alliance s A = Inr U")
    (simp_all add: get_alliance_members_allowed get_alliance_members_denied split: option.splits)

lemma get_battle_events_status:
  "status_code (fst (get_battle_events U M s)) \<in> {200, 403, 500}"
proof (cases "resolve_member s M")
  case (Inl e)
  then show ?thesis by (simp add: get_battle_events_no_member)
next
  case (Inr A)
  then show ?thesis
    by (cases "resolve_alliance s A = Inr U")
      (simp_all add: get_battle_events_allowed get_battle_events_denied split: option.splits)
qed

lemma get_alliance_members_403:
  "status_code (fst (get_alliance_members U A s)) = 403 \<Longrightarrow>
   fst (get_alliance_members U A s) = Error_json 403 forbidden_msg"
  by (cases "resolve_alliance s A = Inr U")
    (simp_all add: get_alliance_members_allowed get_alliance_members_denied split: option.splits)

lemma get_battle_events_403:
  assumes "status_code (fst (get_battle_events U M s)) = 403"
  shows "fst (get_battle_events U M s) = Error_json 403 forbidden_msg"
proof (cases "resolve_member s M")
  case (Inl e)
  with assms show ?thesis by (simp add: get_battle_events_no_member)
next
  case (Inr A)
  with assms show ?thesis
    by (cases "resolve_alliance s A = Inr U")
      (simp_all add: get_battle_events_allowed get_battle_events_denied split: option.splits)
qed

lemma get_alliances_result:
  "fst (get_alliances U s) =
     (case fault s Alliances of
        Some e \<Rightarrow> Error_json 500 (message e)
      | None \<Rightarrow> Json (filter (\<lambda>a. manager_id a = U) (alliances s)))"
  by (simp add: get_alliances_def select_eq_def split: option.splits)

lemma get_user_result:
  "fst (get_user U s) =
     (case fault s Users of
        Some e \<Rightarrow> Error_json 500 (message e)
      | None \<Rightarrow>
          (case filter (\<lambda>r. u_id r = U) (users s) of
             [] \<Rightarrow> Error_json 500 (message no_single_row)
           | [x] \<Rightarrow> Json x
           | x # y # zs \<Rightarrow> Error_json 500 (message no_single_row)))"
  by (simp add: get_user_def single_def select_eq_def split: option.splits list.splits)

lemma post_stats_result:
  "fst (post_stats k U b now s) =
     (case b of
        None \<Rightarrow> Error_json 400 ''Stats required''
      | Some v \<Rightarrow>
          if \<not> truthy v then Error_json 400 ''Stats required''
          else (case fault s (stat_table k) of
                  Some e \<Rightarrow> Error_json 500 (message e)
                | None \<Rightarrow> Json [\<lparr>user_id = U, stats = v, created_at = now\<rparr>]))"
  by (simp add: post_stats_def js_not_def upsert_def split: option.splits)

lemma get_alliance_members_alliances_fault:
  "fault s Alliances = Some e \<Longrightarrow>
   fst (get_alliance_members U A s) = Error_json 403 forbidden_msg"
  by (simp add: get_alliance_members_denied resolve_alliance_fault)

lemma get_battle_events_alliances_fault:
  "fault s Alliances = Some e \<Longrightarrow> resolve_member s M = Inr B \<Longrightarrow>
   fst (get_battle_events U M s) = Error_json 403 forbidden_msg"
  by (simp add: get_battle_events_denied resolve_alliance_fault)

lemma get_stats_500:
  "status_code (fst (get_stats k U s)) = 500 \<Longrightarrow>
   \<exists>e. fault s (stat_table k) = Some e \<and> fst (get_stats k U s) = Error_json 500 (message e)"
  by (cases "fault s (stat_table k)") (simp_all add: get_stats_result)

lemma post_stats_500:
  "status_code (fst (post_stats k U b now s)) = 500 \<Longrightarrow>
   \<exists>e. fault s (stat_table k) = Some e
       \<and> fst (post_stats k U b now s) = Error_json 500 (message e)"
  by (cases "fault s (stat_table k)")
    (auto simp: post_stats_result split: option.splits if_splits)

lemma post_stats_400:
  "status_code (fst (post_stats k U b now s)) = 400 \<Longrightarrow>
   fst (post_stats k U b now s) = Error_json 400 ''Stats required''"
  by (auto simp: post_stats_result split: option.splits if_splits)

lemma get_user_500:
  "status_code (fst (get_user U s)) = 500 \<Longrightarrow>
   \<exists>e. (fault s Users = Some e \<or> e = no_single_row)
       \<and> fst (get_user U s) = Error_json 500 (message e)"
  by (cases "fault s Users") (auto simp: get_user_result split: list.splits)

lemma get_alliances_500:
  "status_code (fst (get_alliances U s)) = 500 \<Longrightarrow>
   \<exists>e. fault s Alliances = Some e \<and> fst (get_alliances U s) = Error_json 500 (message e)"
  by (cases "fault s Alliances") (simp_all add: get_alliances_result)

lemma get_alliance_members_500:
  "status_code (fst (get_alliance_members U A s)) = 500 \<Longrightarrow>
   \<exists>e. fault s AllianceMembers = Some e
       \<and> fst (get_alliance_members U A s) = Error_json 500 (message e)"
  by (cases "resolve_alliance s A = Inr U"; cases "fault s AllianceMembers")
    (simp_all add: get_alliance_members_allowed get_alliance_members_denied)

lemma get_battle_events_500:
  assumes "status_code (fst (get_battle_events U M s)) = 500"
  shows "\<exists>e. (resolve_member s M = Inl e \<or> fault s BattleEvents = Some e)
           \<and> fst (get_battle_events U M s) = Error_json 500 (message e)"
proof (cases "resolve_member s M")
  case (Inl e)
  then show ?thesis by (auto simp: get_battle_events_no_member)
next
  case (Inr B)
  with assms show ?thesis
    by (cases "resolve_alliance s B = Inr U"; cases "fault s BattleEvents")
      (simp_all add: get_battle_events_allowed get_battle_events_denied)
qed

lemma resolve_member_Inl_origin:
  "resolve_member s M = Inl e \<Longrightarrow> fault s AllianceMembers = Some e \<or> e = no_single_row"
  by (cases "fault s AllianceMembers")
    (auto simp: resolve_member_def single_def select_eq_def split: list.splits)

lemma get_stats_status: "status_code (fst (get_stats k U s)) \<in> {200, 500}"
  by (simp add: get_stats_result split: option.splits)

lemma post_stats_status: "status_code (fst (post_stats k U b now s)) \<in> {200, 400, 500}"
  by (simp add: post_stats_result split: option.splits)

lemma get_user_status: "status_code (fst (get_user U s)) \<in> {200, 500}"
  by (simp add: get_user_result split: option.splits list.splits)

lemma get_alliances_status: "status_code (fst (get_alliances U s)) \<in> {200, 500}"
  by (simp add: get_alliances_result split: option.splits)

text \<open>
  A failure of the store reaches the caller with the store's own text, on the read and
  on the write path; so does the store's error for a member that does not exist.
\<close>

theorem store_error_text_reaches_response:
  "fst (get_military_stats ''U1'' faulty_store) =
     Error_json 500 ''connection to server at 10.0.0.5, port 5432 failed''
   \<and> fst (post_military_stats ''U1'' (Some (JObj [(''attack'', JNum 10)])) ''t'' faulty_store) =
     Error_json 500 ''connection to server at 10.0.0.5, port 5432 failed''
   \<and> alliance_members scenario_store = [\<lparr>m_id = ''M1'', alliance_id = ''A1''\<rparr>]
   \<and> fst (get_battle_events ''U1'' ''M9'' scenario_store) =
     Error_json 500 ''JSON object requested, multiple (or no) rows returned''"
  by (simp add: get_military_stats_def post_military_stats_def get_stats_result post_stats_truthy
      faulty_store_def stats_store_def scenario_store_def empty_store_def
      get_battle_events_def single_def select_eq_def no_single_row_def)

text \<open>
  Claim C7, amended. A 403 response carries the one fixed text and nothing of the store,
  and a 400 response the fixed text \<^verbatim>\<open>Stats required\<close>. An error of the store, or a
  missing row, on the \<^verbatim>\<open>alliances\<close> lookup of the two chain handlers is answered 403
  with the fixed text.
  Every other error of the store is answered 500 with the store's error message as the
  \<^verbatim>\<open>error\<close> field: on a stats table (read and write), on \<^verbatim>\<open>users\<close>, on the
  alliances listing, on the member lookup of the battle-events handler (the error of the
  store or its no-row error for a missing member), and on the final fetch of
  \<^verbatim>\<open>alliance_members\<close> or \<^verbatim>\<open>battle_events\<close>. Conversely every 500 of a handler
  has this form, with the message of an error of the store. No handler answers 404: the
  statuses are 200, 400 (stat POST only), 403 (chain handlers only) and 500. The text
  \<^verbatim>\<open>Something went wrong!\<close> is the answer of the last middleware, reached when a
  handler throws.
\<close>

theorem error_responses_by_origin:
  "(status_code (fst (get_alliance_members U A s)) = 403 \<longrightarrow>
      fst (get_alliance_members U A s) = Error_json 403 forbidden_msg)
   \<and> (status_code (fst (get_battle_events U M s)) = 403 \<longrightarrow>
      fst (get_battle_events U M s) = Error_json 403 forbidden_msg)
   \<and> (status_code (fst (post_stats k U b now s)) = 400 \<longrightarrow>
      fst (post_stats k U b now s) = Error_json 400 ''Stats required'')
   \<and> (fault s Alliances = Some e \<longrightarrow>
      fst (get_alliance_members U A s) = Error_json 403 forbidden_msg)
   \<and> (fault s Alliances = Some e \<and> resolve_member s M = Inr B \<longrightarrow>
      fst (get_battle_events U M s) = Error_json 403 forbidden_msg)
   \<and> (fault s Alliances = Some e \<longrightarrow>
      fst (get_alliances U s) = Error_json 500 (message e))
   \<and> (fault s (stat_table k) = Some e \<longrightarrow>
      fst (get_stats k U s) = Error_json 500 (message e))
   \<and> (fault s (stat_table k) = Some e \<and> truthy v \<longrightarrow>
      fst (post_stats k U (Some v) now s) = Error_json 500 (message e))
   \<and> (fault s Users = Some e \<longrightarrow> fst (get_user U s) = Error_json 500 (message e))
   \<and> (resolve_member s M = Inl e \<longrightarrow>
      fst (get_battle_events U M s) = Error_json 500 (message e)
      \<and> (fault s AllianceMembers = Some e \<or> e = no_single_row))
   \<and> (resolve_alliance s A = Inr U \<and> fault s AllianceMembers = Some e \<longrightarrow>
      fst (get_alliance_members U A s) = Error_json 500 (message e))
   \<and> (resolve_member s M = Inr B \<and> resolve_alliance s B = Inr U
        \<and> fault s BattleEvents = Some e \<longrightarrow>
      fst (get_battle_events U M s) = Error_json 500 (message e))
   \<and> (status_code (fst (get_stats k U s)) = 500 \<longrightarrow>
      (\<exists>x. fault s (stat_table k) = Some x
           \<and> fst (get_stats k U s) = Error_json 500 (message x)))
   \<and> (status_code (fst (post_stats k U b now s)) = 500 \<longrightarrow>
      (\<exists>x. fault s (stat_table k) = Some x
           \<and> fst (post_stats k U b now s) = Error_json 500 (message x)))
   \<and> (status_code (fst (get_user U s)) = 500 \<longrightarrow>
      (\<exists>x. (fault s Users = Some x \<or> x = no_single_row)
           \<and> fst (get_user U s) = Error_json 500 (message x)))
   \<and> (status_code (fst (get_alliances U s)) = 500 \<longrightarrow>
      (\<exists>x. fault s Alliances = Some x
           \<and> fst (get_alliances U s) = Error_json 500 (message x)))
   \<and> (status_code (fst (get_alliance_members U A s)) = 500 \<longrightarrow>
      (\<exists>x. fault s AllianceMembers = Some x
           \<and> fst (get_alliance_members U A s) = Error_json 500 (message x)))
   \<and> (status_code (fst (get_battle_events U M s)) = 500 \<longrightarrow>
      (\<exists>x. (resolve_member s M = Inl x \<or> fault s BattleEvents = Some x)
           \<and> fst (get_battle_events U M s) = Error_json 500 (message x)))
   \<and> status_code (fst (get_user U s)) \<in> {200, 500}
   \<and> status_code (fst (get_stats k U s)) \<in> {200, 500}
   \<and> status_code (fst (post_stats k U b now s)) \<in> {200, 400, 500}
   \<and> status_code (fst (get_alliances U s)) \<in> {200, 500}
   \<and> status_code (fst (get_alliance_members U A s)) \<in> {200, 403, 500}
   \<and> status_code (fst (get_battle_events U M s)) \<in> {200, 403, 500}
   \<and> error_middleware err_stack = Error_json 500 ''Something went wrong!''
   \<and> (filter (\<lambda>a. a_id a = A) (alliances s) = [] \<longrightarrow>
      fst (get_alliance_members U A s) = Error_json 403 forbidden_msg)
   \<and> (resolve_member s M = Inr B \<and> filter (\<lambda>a. a_id a = B) (alliances s) = [] \<longrightarrow>
      fst (get_battle_events U M s) = Error_json 403 forbidden_msg)"
proof -
  have forbidden:
    "status_code (fst (get_alliance_members U A s)) = 403 \<longrightarrow>
       fst (get_alliance_members U A s) = Error_json 403 forbidden_msg"
    "status_code (fst (get_battle_events U M s)) = 403 \<longrightarrow>
       fst (get_battle_events U M s) = Error_json 403 forbidden_msg"
    "status_code (fst (post_stats k U b now s)) = 400 \<longrightarrow>
       fst (post_stats k U b now s) = Error_json 400 ''Stats required''"
    by (simp_all add: get_alliance_members_403 get_battle_events_403 post_stats_400)
  have lookup:
    "fault s Alliances = Some e \<longrightarrow>
       fst (get_alliance_members U A s) = Error_json 403 forbidden_msg"
    "fault s Alliances = Some e \<and> resolve_member s M = Inr B \<longrightarrow>
       fst (get_battle_events U M s) = Error_json 403 forbidden_msg"
    by (simp_all add: get_alliance_members_alliances_fault get_battle_events_alliances_fault)
  have passed:
    "fault s Alliances = Some e \<longrightarrow> fst (get_alliances U s) = Error_json 500 (message e)"
    "fault s (stat_table k) = Some e \<longrightarrow> fst (get_stats k U s) = Error_json 500 (message e)"
    "fault s (stat_table k) = Some e \<and> truthy v \<longrightarrow>
       fst (post_stats k U (Some v) now s) = Error_json 500 (message e)"
    "fault s Users = Some e \<longrightarrow> fst (get_user U s) = Error_json 500 (message e)"
    by (simp_all add: get_alliances_result get_stats_result post_stats_result get_user_result)
  have chain:
    "resolve_member s M = Inl e \<longrightarrow>
       fst (get_battle_events U M s) = Error_json 500 (message e)
       \<and> (fault s AllianceMembers = Some e \<or> e = no_single_row)"
    "resolve_alliance s A = Inr U \<and> fault s AllianceMembers = Some e \<longrightarrow>
       fst (get_alliance_members U A s) = Error_json 500 (message e)"
    "resolve_member s M = Inr B \<and> resolve_alliance s B = Inr U
        \<and> fault s BattleEvents = Some e \<longrightarrow>
       fst (get_battle_events U M s) = Error_json 500 (message e)"
    using resolve_member_Inl_origin [of s M e]
    by (simp_all add: get_battle_events_no_member get_alliance_members_allowed
        get_battle_events_allowed)
  have origin:
    "status_code (fst (get_stats k U s)) = 500 \<longrightarrow>
       (\<exists>x. fault s (stat_table k) = Some x
            \<and> fst (get_stats k U s) = Error_json 500 (message x))"
    "status_code (fst (post_stats k U b now s)) = 500 \<longrightarrow>
       (\<exists>x. fault s (stat_table k) = Some x
            \<and> fst (post_stats k U b now s) = Error_json 500 (message x))"
    "status_code (fst (get_user U s)) = 500 \<longrightarrow>
       (\<exists>x. (fault s Users = Some x \<or> x = no_single_row)
            \<and> fst (get_user U s) = Error_json 500 (message x))"
    "status_code (fst (get_alliances U s)) = 500 \<longrightarrow>
       (\<exists>x. fault s Alliances = Some x
            \<and> fst (get_alliances U s) = Error_json 500 (message x))"
    "status_code (fst (get_alliance_members U A s)) = 500 \<longrightarrow>
       (\<exists>x. fault s AllianceMembers = Some x
            \<and> fst (get_alliance_members U A s) = Error_json 500 (message x))"
    "status_code (fst (get_battle_events U M s)) = 500 \<longrightarrow>
       (\<exists>x. (resolve_member s M = Inl x \<or> fault s BattleEvents = Some x)
            \<and> fst (get_battle_events U M s) = Error_json 500 (message x))"
    using get_stats_500 [of k U s] post_stats_500 [of k U b now s] get_user_500 [of U s]
      get_alliances_500 [of U s] get_alliance_members_500 [of U A s]
      get_battle_events_500 [of U M s]
    by blast+
  have codes:
    "status_code (fst (get_user U s)) \<in> {200, 500}"
    "status_code (fst (get_stats k U s)) \<in> {200, 500}"
    "status_code (fst (post_stats k U b now s)) \<in> {200, 400, 500}"
    "status_code (fst (get_alliances U s)) \<in> {200, 500}"
    "status_code (fst (get_alliance_members U A s)) \<in> {200, 403, 500}"
    "status_code (fst (get_battle_events U M s)) \<in> {200, 403, 500}"
    by (rule get_user_status get_stats_status post_stats_status get_alliances_status
        get_alliance_members_status get_battle_events_status)+
  have generic: "error_middleware err_stack = Error_json 500 ''Something went wrong!''"
    by (simp add: error_middleware_def)
  have absent:
    "filter (\<lambda>a. a_id a = A) (alliances s) = [] \<longrightarrow>
       fst (get_alliance_members U A s) = Error_json 403 forbidden_msg"
    "resolve_member s M = Inr B \<and> filter (\<lambda>a. a_id a = B) (alliances s) = [] \<longrightarrow>
       fst (get_battle_events U M s) = Error_json 403 forbidden_msg"
    using resolve_alliance_missing [of A s] resolve_alliance_missing [of B s]
    by (auto simp: get_alliance_members_denied get_battle_events_denied)
  show ?thesis
    by (intro conjI) (rule forbidden lookup passed chain origin codes generic absent)+
qed

theorem error_responses_by_origin_witness:
  "fst (get_alliance_members ''U1'' ''A1'' alliances_down_store) = Error_json 403 forbidden_msg
   \<and> fst (get_alliances ''U1'' alliances_down_store) =
       Error_json 500 ''permission denied for table alliances''
   \<and> fst (get_stats Military ''U2'' faulty_store) =
       Error_json 500 ''connection to server at 10.0.0.5, port 5432 failed''"
proof -
  have f: "fault alliances_down_store Alliances =
             Some (PgError ''permission denied for table alliances'')"
    by (simp add: alliances_down_store_def)
  have g: "fault faulty_store (stat_table Military) =
             Some (PgError ''connection to server at 10.0.0.5, port 5432 failed'')"
    by (simp add: faulty_store_def)
  note down = error_responses_by_origin [where s = alliances_down_store and U = "''U1''"
      and A = "''A1''" and e = "PgError ''permission denied for table alliances''"]
  note unreachable = error_responses_by_origin [where s = faulty_store and k = Military
      and U = "''U2''" and e = "PgError ''connection to server at 10.0.0.5, port 5432 failed''"]
  have "fst (get_alliance_members ''U1'' ''A1'' alliances_down_store) =
          Error_json 403 forbidden_msg"
    using down [THEN conjunct2, THEN conjunct2, THEN conjunct2, THEN conjunct1, THEN mp, OF f] .
  moreover have "fst (get_alliances ''U1'' alliances_down_store) =
          Error_json 500 ''permission denied for table alliances''"
    using down [THEN conjunct2, THEN conjunct2, THEN conjunct2, THEN conjunct2,
        THEN conjunct2, THEN conjunct1, THEN mp, OF f]
    by simp
  moreover have "fst (get_stats Military ''U2'' faulty_store) =
          Error_json 500 ''connection to server at 10.0.0.5, port 5432 failed''"
    using unreachable [THEN conjunct2, THEN conjunct2, THEN conjunct2, THEN conjunct2,
        THEN conjunct2, THEN conjunct2, THEN conjunct1, THEN mp, OF g]
    by simp
  ultimately show ?thesis by simp
qed

section \<open>Missing rows on the ownership chain\<close>

text \<open>
  With alliance \<open>A1\<close> deleted, its former manager is answered 403 Forbidden by both
  endpoints; a member id that no row has is answered 500.
\<close>

theorem missing_alliance_is_forbidden:
  "filter (\<lambda>a. a_id a = ''A1'') (alliances dangling_store) = []
   \<and> fst (get_alliance_members ''U1'' ''A1'' dangling_store) = Error_json 403 forbidden_msg
   \<and> filter (\<lambda>m. m_id m = ''M1'') (alliance_members dangling_store) =
       [\<lparr>m_id = ''M1'', alliance_id = ''A1''\<rparr>]
   \<and> fst (get_battle_events ''U1'' ''M1'' dangling_store) = Error_json 403 forbidden_msg
   \<and> filter (\<lambda>m. m_id m = ''M9'') (alliance_members dangling_store) = []
   \<and> status_code (fst (get_battle_events ''U1'' ''M9'' dangling_store)) = 500"
  by (simp add: dangling_store_def scenario_store_def empty_store_def
      get_alliance_members_def get_battle_events_def single_def select_eq_def)

text \<open>
  Claim C1, amended. A missing alliance row is answered 403 Forbidden with the fixed
  text, by the alliance-members endpoint and, for a member whose alliance is gone, by
  the battle-events endpoint. A missing member row is answered 500 with the store's
  error message. Every request is answered with status 200, 403 or 500: there is no 404
  and no run without a response.
\<close>

theorem missing_row_responses:
  "(filter (\<lambda>a. a_id a = A) (alliances s) = [] \<longrightarrow>
      fst (get_alliance_members U A s) = Error_json 403 forbidden_msg)
   \<and> (fault s AllianceMembers = None \<and> filter (\<lambda>m. m_id m = M) (alliance_members s) = [] \<longrightarrow>
      fst (get_battle_events U M s) = Error_json 500 (message no_single_row))
   \<and> (fault s AllianceMembers = None \<and> filter (\<lambda>m. m_id m = M) (alliance_members s) = [m]
        \<and> filter (\<lambda>a. a_id a = alliance_id m) (alliances s) = [] \<longrightarrow>
      fst (get_battle_events U M s) = Error_json 403 forbidden_msg)
   \<and> status_code (fst (get_alliance_members U A s)) \<in> {200, 403, 500}
   \<and> status_code (fst (get_battle_events U M s)) \<in> {200, 403, 500}"
proof -
  have a: "fst (get_alliance_members U A s) = Error_json 403 forbidden_msg"
    if "filter (\<lambda>a. a_id a = A) (alliances s) = []"
  proof -
    from that obtain e where "resolve_alliance s A = Inl e"
      using resolve_alliance_missing by blast
    then show ?thesis by (simp add: get_alliance_members_denied)
  qed
  have b: "fst (get_battle_events U M s) = Error_json 500 (message no_single_row)"
    if "fault s AllianceMembers = None" and "filter (\<lambda>m. m_id m = M) (alliance_members s) = []"
    using resolve_member_missing [OF that] by (simp add: get_battle_events_no_member)
  have c: "fst (get_battle_events U M s) = Error_json 403 forbidden_msg"
    if "fault s AllianceMembers = None"
      and "filter (\<lambda>m. m_id m = M) (alliance_members s) = [m]"
      and "filter (\<lambda>a. a_id a = alliance_id m) (alliances s) = []"
  proof -
    have rm: "resolve_member s M = Inr (alliance_id m)"
      using that(1,2) by (rule resolve_member_unique)
    from that(3) obtain e where "resolve_alliance s (alliance_id m) = Inl e"
      using resolve_alliance_missing by blast
    then have "resolve_alliance s (alliance_id m) \<noteq> Inr U" by simp
    with rm show ?thesis by (simp add: get_battle_events_denied)
  qed
  from a b c get_alliance_members_status [of U A s] get_battle_events_status [of U M s]
  show ?thesis by blast
qed

theorem missing_row_responses_witness:
  "fst (get_alliance_members ''U1'' ''A1'' dangling_store) = Error_json 403 forbidden_msg
   \<and> fst (get_battle_events ''U1'' ''M9'' dangling_store) = Error_json 500 (message no_single_row)
   \<and> fst (get_battle_events ''U1'' ''M1'' dangling_store) = Error_json 403 forbidden_msg"
  using missing_row_responses
    [of "''A1''" dangling_store "''U1''" "''M9''"]
    missing_row_responses
    [of "''A1''" dangling_store "''U1''" "''M1''" "\<lparr>m_id = ''M1'', alliance_id = ''A1''\<rparr>"]
  by (simp add: dangling_store_def scenario_store_def empty_store_def)

end
